theory Spec2Isabelle
  imports Main
begin

section \<open>Python values shared by the three scripts\<close>

text \<open>
  An instance of Python's \<open>Exception\<close> class: its class name and the text that
  \<open>str(e)\<close> (and an f-string) renders. Signals that derive from \<open>BaseException\<close>
  only (task cancellation, interpreter exit) are not values of this type; no handler
  of the repository names them.
\<close>

datatype py_exception = PyException (exc_class: string) (exc_text: string)

text \<open>How a call ends: it returns, or an exception leaves it.\<close>

datatype outcome = Returned | Raised py_exception

text \<open>A retrieved or loaded document; only \<open>page_content\<close> is read by the code.\<close>

datatype document = Document (page_content: string)

definition nl :: char where
  "nl = CHR 0x0A"

definition apostrophe :: char where
  "apostrophe = CHR 0x27"

text \<open>\<open>sep.join(parts)\<close>.\<close>

fun join :: "string \<Rightarrow> string list \<Rightarrow> string" where
  "join sep [] = []"
| "join sep [x] = x"
| "join sep (x # y # ys) = x @ sep @ join sep (y # ys)"

text \<open>Decimal rendering of a non-negative integer, as \<open>{len(xs)}\<close> in an f-string.\<close>

definition digit_char :: "nat \<Rightarrow> char" where
  "digit_char d = ''0123456789'' ! d"

function show_nat :: "nat \<Rightarrow> string" where
  "show_nat n = (if n < 10 then [digit_char n] else show_nat (n div 10) @ [digit_char (n mod 10)])"
  by pat_completeness auto
termination
  by (relation "measure id") auto

declare show_nat.simps [simp del]

text \<open>\<open>'...'\<close> around an interpolated value.\<close>

definition quoted :: "string \<Rightarrow> string" where
  "quoted s = [apostrophe] @ s @ [apostrophe]"

text \<open>
  What a run does, in order: a line on the console (\<open>print\<close>), an event handed to the
  consumer of a generator (\<open>yield\<close>), a pause (\<open>asyncio.sleep(0.01)\<close>), a file
  opened for writing, text written to it, a directory created, and the calls into the
  libraries that load, split, embed, store, search and generate, with the arguments the
  code passes. An entry is made when the step is attempted, whether or not it then
  raises.
\<close>

datatype effect =
    Print string
  | Yield string
  | Sleep
  | Open_w string
  | Write_text string string
  | Makedirs string
  | Call_load string string
  | Call_split_documents nat nat
  | Call_embeddings string string
  | Call_chroma string string
  | Call_from_documents string string
  | Call_asimilarity_search string nat
  | Call_astream string

text \<open>A run followed to its end: everything it did, and how it ended.\<close>

record run_result =
  trace :: "effect list"
  ending :: outcome

text \<open>The embedding function object; the code only passes it on.\<close>

datatype embedding_function = SentenceTransformerEmbeddings string string

section \<open>main.py: the query server\<close>

subsection \<open>Constants\<close>

definition CHROMA_PERSIST_DIR :: string where
  "CHROMA_PERSIST_DIR = ''chroma_db''"

definition COLLECTION_NAME :: string where
  "COLLECTION_NAME = ''medical_knowledge''"

definition EMBEDDING_MODEL_NAME :: string where
  "EMBEDDING_MODEL_NAME = ''sentence-transformers/all-MiniLM-L6-v2''"

definition MODEL_CACHE_DIR :: string where
  "MODEL_CACHE_DIR = ''model_cache''"

definition LLM_MODEL_NAME :: string where
  "LLM_MODEL_NAME = ''phi3:mini''"

subsection \<open>Library objects held in the globals\<close>

text \<open>
  The vector store handle (\<open>Chroma\<close>). The class lives outside the repository, so what
  the code asks of it is a field: the truth value Python gives the object in
  \<open>if not vector_store\<close>, and the result of \<open>asimilarity_search(query, k=k)\<close>, which
  is a list of documents or an exception.
\<close>

record vector_store_handle =
  vs_truthy :: bool
  vs_asimilarity_search :: "string \<Rightarrow> nat \<Rightarrow> py_exception + document list"

text \<open>
  The language model client (\<open>ChatOllama\<close>). \<open>astream(prompt)\<close> is consumed by
  \<open>async for\<close>: it delivers the \<open>content\<close> of finitely many chunks, and then the
  stream either completes (\<open>None\<close>) or raises.
\<close>

record llm_handle =
  llm_astream :: "string \<Rightarrow> string list \<times> py_exception option"

text \<open>\<open>PromptTemplate(template=..., input_variables=[...])\<close>.\<close>

record prompt_template_obj =
  pt_template :: string
  pt_input_variables :: "string list"

record globals =
  vector_store :: "vector_store_handle option"
  llm :: "llm_handle option"
  prompt_template :: "prompt_template_obj option"

text \<open>The module-level assignments \<open>vector_store = None\<close>, \<open>llm = None\<close>, \<open>prompt_template = None\<close>.\<close>

definition initial_globals :: globals where
  "initial_globals = \<lparr>vector_store = None, llm = None, prompt_template = None\<rparr>"

text \<open>Reading an attribute of \<open>None\<close>.\<close>

definition none_attribute_error :: "string \<Rightarrow> py_exception" where
  "none_attribute_error attr =
     PyException ''AttributeError''
       (quoted ''NoneType'' @ '' object has no attribute '' @ quoted attr)"

subsection \<open>The prompt template and its \<open>format\<close>\<close>

text \<open>
  The string literal assigned to \<open>template\<close> in \<open>startup_event\<close>, written as the
  text before \<open>{context}\<close>, the text between the two placeholders, and the text after
  \<open>{question}\<close>.
\<close>

definition template_head :: string where
  "template_head =
     [nl]
     @ ''You are ArogyaAi, an AI medical assistant developed by Gunaji. Your role is to provide helpful, safe, and evidence-based medical information.''
     @ [nl]
     @ ''Your answers should be helpful but concise.''
     @ [nl]
     @ ''You must answer the user''
     @ [apostrophe]
     @ ''s question based *only* on the context provided below.''
     @ [nl]
     @ ''If the context does not contain the answer, state that you do not have enough information and advise the user to consult a healthcare professional.''
     @ [nl]
     @ ''Do not make up information or provide medical advice, diagnoses, or prescriptions.''
     @ [nl]
     @ [nl]
     @ ''Context:''
     @ [nl]"

definition template_middle :: string where
  "template_middle = [nl] @ [nl] @ ''Question:'' @ [nl]"

definition template_tail :: string where
  "template_tail = [nl] @ [nl] @ ''Answer:'' @ [nl]"

definition template_text :: string where
  "template_text =
     template_head @ ''{context}'' @ template_middle @ ''{question}'' @ template_tail"

text \<open>
  \<open>prompt_template.format(context=..., question=...)\<close> formats the template as Python's
  \<open>str.format\<close> does with keyword arguments: text is copied, \<open>{{\<close> and \<open>}}\<close> stand for
  one brace, \<open>{name}\<close> is replaced by the argument of that name. The scan is left to
  right and a substituted value is not scanned again. An unknown name raises
  \<open>KeyError\<close>, an unbalanced brace \<open>ValueError\<close>. Only plain names are covered (no
  conversion, format specification or attribute access), which is all the template has.
\<close>

definition lookup_kw :: "(string \<times> string) list \<Rightarrow> string \<Rightarrow> py_exception + string" where
  "lookup_kw kw name =
     (case map_of kw name of
        None \<Rightarrow> Inl (PyException ''KeyError'' (quoted name))
      | Some v \<Rightarrow> Inr v)"

text \<open>Put text in front of a result, if there is one.\<close>

definition prepend :: "string \<Rightarrow> py_exception + string \<Rightarrow> py_exception + string" where
  "prepend s r = (case r of Inl e \<Rightarrow> Inl e | Inr t \<Rightarrow> Inr (s @ t))"

definition not_close_brace :: "char \<Rightarrow> bool" where
  "not_close_brace c = (c \<noteq> CHR ''}'')"

function str_format :: "(string \<times> string) list \<Rightarrow> string \<Rightarrow> py_exception + string" where
  "str_format kw [] = Inr []"
| "str_format kw (c # cs) =
     (if c = CHR ''{'' then
        (case cs of
           [] \<Rightarrow> Inl (PyException ''ValueError''
                      (''Single '' @ quoted ''{'' @ '' encountered in format string''))
         | d # ds \<Rightarrow>
             if d = CHR ''{'' then prepend ''{'' (str_format kw ds)
             else if dropWhile not_close_brace cs = [] then
               Inl (PyException ''ValueError''
                      (''expected '' @ quoted ''}'' @ '' before end of string''))
             else
               (case lookup_kw kw (takeWhile not_close_brace cs) of
                  Inl e \<Rightarrow> Inl e
                | Inr v \<Rightarrow>
                    prepend v (str_format kw (tl (dropWhile not_close_brace cs)))))
      else if c = CHR ''}'' then
        (case cs of
           [] \<Rightarrow> Inl (PyException ''ValueError''
                      (''Single '' @ quoted ''}'' @ '' encountered in format string''))
         | d # ds \<Rightarrow>
             if d = CHR ''}'' then prepend ''}'' (str_format kw ds)
             else Inl (PyException ''ValueError''
                         (''Single '' @ quoted ''}'' @ '' encountered in format string'')))
      else prepend [c] (str_format kw cs))"
  by pat_completeness auto
termination
proof (relation "measure (\<lambda>(kw, s). length s)", goal_cases)
  case (3 kw c cs d ds)
  have "length (dropWhile not_close_brace cs) \<le> length cs"
    by (rule length_dropWhile_le)
  then show ?case
    by simp
qed auto

definition pt_format :: "prompt_template_obj \<Rightarrow> (string \<times> string) list \<Rightarrow> py_exception + string" where
  "pt_format pt kw = str_format kw (pt_template pt)"

subsection \<open>The chat stream generator\<close>

fun events_of :: "effect list \<Rightarrow> string list" where
  "events_of [] = []"
| "events_of (Yield s # t) = s # events_of t"
| "events_of (_ # t) = events_of t"

fun is_library_call :: "effect \<Rightarrow> bool" where
  "is_library_call (Call_asimilarity_search _ _) = True"
| "is_library_call (Call_astream _) = True"
| "is_library_call _ = False"

text \<open>\<open>f"data: {x}\n\n"\<close>.\<close>

definition sse_event :: "string \<Rightarrow> string" where
  "sse_event x = ''data: '' @ x @ [nl, nl]"

definition error_message :: string where
  "error_message = ''Vector store is not initialized. Please check server startup logs.''"

definition no_context_message :: string where
  "no_context_message = ''I do not have enough information about that topic to provide an answer. Disclaimer: I am an Al assistant and not a substitute for professional medical advice. Please consult a qualified healthcare provider for any health concerns.''"

text \<open>\<open>for char in no_context_message: yield ...; await asyncio.sleep(0.01)\<close>.\<close>

primrec type_out :: "string \<Rightarrow> effect list" where
  "type_out [] = []"
| "type_out (char # rest) = Yield (sse_event [char]) # Sleep # type_out rest"

text \<open>
  The body of the \<open>try\<close> block: what it did, and the exception that left it, if any
  (\<open>None\<close>: it ran to its end or to its \<open>return\<close>).
\<close>

definition chat_try_block ::
  "globals \<Rightarrow> vector_store_handle \<Rightarrow> string \<Rightarrow> effect list \<times> py_exception option" where
  "chat_try_block g vs query =
     (let t0 = [Print (''Searching for context for: '' @ quoted query),
                Call_asimilarity_search query 5]
      in case vs_asimilarity_search vs query 5 of
           Inl e \<Rightarrow> (t0, Some e)
         | Inr retrieved_docs \<Rightarrow>
             if retrieved_docs = [] then
               (t0 @ [Print ''No relevant context found in the database.'']
                   @ type_out no_context_message, None)
             else
               (let t1 = t0 @ [Print (''Found '' @ show_nat (length retrieved_docs)
                                      @ '' relevant documents.'')];
                   context_str = join [nl, nl] (map page_content retrieved_docs)
               in case prompt_template g of
                    None \<Rightarrow> (t1, Some (none_attribute_error ''format''))
                  | Some pt \<Rightarrow>
                      (case pt_format pt [(''context'', context_str), (''question'', query)] of
                         Inl e \<Rightarrow> (t1, Some e)
                       | Inr formatted_prompt \<Rightarrow>
                           (case llm g of
                              None \<Rightarrow> (t1, Some (none_attribute_error ''astream''))
                            | Some l \<Rightarrow>
                                (case llm_astream l formatted_prompt of
                                   (chunks, fin) \<Rightarrow>
                                     (t1 @ [Call_astream formatted_prompt]
                                         @ map (\<lambda>content. Yield (sse_event content)) chunks,
                                      fin))))))"

text \<open>\<open>except Exception as e: print(...); yield f"data: An error occurred: {e}\n\n"\<close>.\<close>

definition chat_except_handler :: "py_exception \<Rightarrow> effect list" where
  "chat_except_handler e =
     [Print (''Error during streaming: '' @ exc_text e),
      Yield (sse_event (''An error occurred: '' @ exc_text e))]"

text \<open>
  The generator. \<open>if not vector_store\<close> holds when the global is \<open>None\<close>, and also when
  it is an object that Python counts as false.
\<close>

definition stream_chat_response :: "globals \<Rightarrow> string \<Rightarrow> run_result" where
  "stream_chat_response g query =
     (case vector_store g of
        None \<Rightarrow> \<lparr>trace = [Yield (sse_event error_message)], ending = Returned\<rparr>
      | Some vs \<Rightarrow>
          if \<not> vs_truthy vs then
            \<lparr>trace = [Yield (sse_event error_message)], ending = Returned\<rparr>
          else
            (case chat_try_block g vs query of
               (t, None) \<Rightarrow> \<lparr>trace = t, ending = Returned\<rparr>
             | (t, Some e) \<Rightarrow> \<lparr>trace = t @ chat_except_handler e, ending = Returned\<rparr>))"

subsection \<open>The generator in a task that may be cancelled\<close>

text \<open>
  The generator runs inside an asyncio task. When the task is cancelled while the
  generator waits at an \<open>await\<close>, that \<open>await\<close> raises \<open>asyncio.CancelledError\<close>, which
  derives from \<open>BaseException\<close> and not from \<open>Exception\<close>. So what can leave the
  \<open>try\<close> block is an instance of \<open>Exception\<close> or a \<open>CancelledError\<close>, and
  \<open>except Exception\<close> matches only the first.
\<close>

datatype raised = Exception_instance py_exception | CancelledError






subsection \<open>The startup hook\<close>

text \<open>
  What the hook finds and calls: whether a path exists, and the constructors of the
  library objects, each of which returns the object or raises.
\<close>

record startup_env =
  su_path_exists :: "string \<Rightarrow> bool"
  su_new_embeddings :: "string \<Rightarrow> string \<Rightarrow> py_exception + embedding_function"
  su_new_chroma :: "string \<Rightarrow> embedding_function \<Rightarrow> string \<Rightarrow> py_exception + vector_store_handle"
  su_new_chat_ollama :: "string \<Rightarrow> py_exception + llm_handle"

text \<open>\<open>PromptTemplate(template=template, input_variables=["context", "question"])\<close>.\<close>

definition startup_prompt_template :: prompt_template_obj where
  "startup_prompt_template =
     \<lparr>pt_template = template_text, pt_input_variables = [''context'', ''question'']\<rparr>"

text \<open>
  The hook assigns the globals one after the other, so the result carries the globals
  as they stand when the hook ends, also when an exception ends it.
\<close>

record startup_result =
  su_globals :: globals
  su_trace :: "effect list"
  su_ending :: outcome

definition startup_event :: "startup_env \<Rightarrow> globals \<Rightarrow> startup_result" where
  "startup_event env g =
     (let t0 = [Print ''--- Server starting up: Initializing RAG components ---'']
      in if \<not> su_path_exists env CHROMA_PERSIST_DIR then
           \<lparr>su_globals = g,
            su_trace = t0 @ [Print (''Error: ChromaDB directory '' @ quoted CHROMA_PERSIST_DIR
                                     @ '' not found.'')],
            su_ending = Returned\<rparr>
         else
           let t1 = t0 @ [Call_embeddings EMBEDDING_MODEL_NAME MODEL_CACHE_DIR]
           in case su_new_embeddings env EMBEDDING_MODEL_NAME MODEL_CACHE_DIR of
                Inl e \<Rightarrow> \<lparr>su_globals = g, su_trace = t1, su_ending = Raised e\<rparr>
              | Inr embedding_function \<Rightarrow>
                  (let t2 = t1 @ [Call_chroma CHROMA_PERSIST_DIR COLLECTION_NAME]
                  in case su_new_chroma env CHROMA_PERSIST_DIR embedding_function COLLECTION_NAME of
                       Inl e \<Rightarrow> \<lparr>su_globals = g, su_trace = t2, su_ending = Raised e\<rparr>
                     | Inr vs \<Rightarrow>
                         (let g1 = g\<lparr>vector_store := Some vs\<rparr>;
                             t3 = t2 @ [Print ''Vector store loaded.''];
                             g2 = g1\<lparr>prompt_template := Some startup_prompt_template\<rparr>
                         in case su_new_chat_ollama env LLM_MODEL_NAME of
                              Inl e \<Rightarrow> \<lparr>su_globals = g2, su_trace = t3, su_ending = Raised e\<rparr>
                            | Inr l \<Rightarrow>
                                \<lparr>su_globals = g2\<lparr>llm := Some l\<rparr>,
                                 su_trace = t3 @
                                   [Print (''LLM '' @ quoted LLM_MODEL_NAME @ '' initialized.''),
                                    Print ''--- RAG components successfully initialized. Server is ready. ---''],
                                 su_ending = Returned\<rparr>)))"

subsection \<open>The translate endpoint\<close>

record TranslationRequest =
  req_text :: string
  req_target_lang :: string
  req_source_lang :: string

text \<open>
  The request model built from a body: \<open>text\<close> and \<open>target_lang\<close> are required,
  \<open>source_lang: str = "auto"\<close> may be left out.
\<close>

definition new_TranslationRequest :: "string \<Rightarrow> string \<Rightarrow> string option \<Rightarrow> TranslationRequest" where
  "new_TranslationRequest txt target source =
     \<lparr>req_text = txt, req_target_lang = target,
      req_source_lang = (case source of None \<Rightarrow> ''auto'' | Some s \<Rightarrow> s)\<rparr>"

text \<open>
  \<open>GoogleTranslator(source=..., target=...)\<close> returns a translator or raises (it
  checks the language codes); the translator's \<open>translate(text)\<close> returns the
  translation or raises.
\<close>

record translator_handle =
  tr_translate :: "string \<Rightarrow> py_exception + string"

record translate_env =
  new_google_translator :: "string \<Rightarrow> string \<Rightarrow> py_exception + translator_handle"

text \<open>A JSON object with string values, as the handler's \<open>dict\<close>.\<close>

type_synonym json_object = "(string \<times> string) list"

text \<open>The handler: its console lines, and the \<open>dict\<close> it returns or the exception that leaves it.\<close>

definition translate_text :: "translate_env \<Rightarrow> TranslationRequest \<Rightarrow> string list \<times> (py_exception + json_object)" where
  "translate_text env request =
     (case new_google_translator env (req_source_lang request) (req_target_lang request) of
        Inl e \<Rightarrow> ([''Google Translate Error: '' @ exc_text e], Inr [(''error'', exc_text e)])
      | Inr translator \<Rightarrow>
          (case tr_translate translator (req_text request) of
             Inl e \<Rightarrow> ([''Google Translate Error: '' @ exc_text e], Inr [(''error'', exc_text e)])
           | Inr result \<Rightarrow> ([], Inr [(''translated_text'', result)])))"

text \<open>
  The route as the framework serves it: the \<open>dict\<close> a handler returns is sent as the
  JSON body of a response with status 200; an exception that leaves a handler is
  answered with status 500.
\<close>

record http_response =
  status_code :: nat
  json_body :: json_object

definition post_translate :: "translate_env \<Rightarrow> TranslationRequest \<Rightarrow> http_response" where
  "post_translate env request =
     (case snd (translate_text env request) of
        Inr body \<Rightarrow> \<lparr>status_code = 200, json_body = body\<rparr>
      | Inl e \<Rightarrow> \<lparr>status_code = 500, json_body = []\<rparr>)"

section \<open>prepare_data.py: the PDF extractor\<close>

definition PDF_SOURCE_DIR :: string where
  "PDF_SOURCE_DIR = ''medical_data''"

definition OUTPUT_TEXT_FILE :: string where
  "OUTPUT_TEXT_FILE = ''knowledge_base.txt''"

text \<open>
  \<open>f.lower()\<close> on a file name. Characters here are bytes, so the letters with a
  lower-case form are \<open>A\<close> to \<open>Z\<close>.
\<close>

definition lower_char :: "char \<Rightarrow> char" where
  "lower_char c =
     (case map_of (zip ''ABCDEFGHIJKLMNOPQRSTUVWXYZ'' ''abcdefghijklmnopqrstuvwxyz'') c of
        None \<Rightarrow> c
      | Some l \<Rightarrow> l)"

definition lower :: "string \<Rightarrow> string" where
  "lower s = map lower_char s"

text \<open>\<open>s.endswith(suffix)\<close>.\<close>

definition endswith :: "string \<Rightarrow> string \<Rightarrow> bool" where
  "endswith s suffix =
     (length suffix \<le> length s \<and> drop (length s - length suffix) s = suffix)"

text \<open>The test of the list comprehension: \<open>f.lower().endswith(".pdf")\<close>.\<close>

definition is_pdf_name :: "string \<Rightarrow> bool" where
  "is_pdf_name f = endswith (lower f) ''.pdf''"

text \<open>\<open>os.path.join(a, b)\<close> for two components, with the POSIX separator.\<close>

definition path_join :: "string \<Rightarrow> string \<Rightarrow> string" where
  "path_join a b =
     (if b \<noteq> [] \<and> hd b = CHR ''/'' then b
      else if a = [] \<or> last a = CHR ''/'' then a @ b
      else a @ ''/'' @ b)"

text \<open>
  What the extractor finds on disk. \<open>os.listdir\<close> returns the names or raises.
  \<open>PdfReader(path)\<close> returns a reader or raises; each page of \<open>reader.pages\<close> gives
  its text on \<open>extract_text()\<close> (a page without text gives the empty string) or
  raises. Opening the output file and writing to it may raise.
\<close>

record prepare_env =
  pe_path_exists :: "string \<Rightarrow> bool"
  pe_listdir :: "string \<Rightarrow> py_exception + string list"
  pe_pdf_reader :: "string \<Rightarrow> py_exception + (py_exception + string) list"
  pe_open_w :: "string \<Rightarrow> py_exception option"
  pe_write :: "string \<Rightarrow> string \<Rightarrow> py_exception option"

text \<open>
  \<open>for page in reader.pages\<close>: \<open>all_text\<close> grows by each non-empty page text and a
  blank line; an exception ends the loop with what has been added so far.
\<close>

fun extract_pages :: "(py_exception + string) list \<Rightarrow> string \<Rightarrow> string \<times> py_exception option" where
  "extract_pages [] all_text = (all_text, None)"
| "extract_pages (Inl e # pages) all_text = (all_text, Some e)"
| "extract_pages (Inr txt # pages) all_text =
     extract_pages pages (if txt \<noteq> [] then all_text @ txt @ [nl, nl] else all_text)"

text \<open>One turn of \<open>for filename in pdf_files\<close>: the \<open>try\<close> with its \<open>except\<close>.\<close>

definition extract_file :: "prepare_env \<Rightarrow> string \<Rightarrow> string \<Rightarrow> string \<Rightarrow> string \<times> effect" where
  "extract_file env pdf_dir filename all_text =
     (case pe_pdf_reader env (path_join pdf_dir filename) of
        Inl e \<Rightarrow>
          (all_text, Print ('' - Could not read '' @ filename @ '': '' @ exc_text e))
      | Inr pages \<Rightarrow>
          (case extract_pages pages all_text of
             (all_text', None) \<Rightarrow>
               (all_text', Print ('' - Successfully extracted text from '' @ filename))
           | (all_text', Some e) \<Rightarrow>
               (all_text', Print ('' - Could not read '' @ filename @ '': '' @ exc_text e))))"

fun extract_files :: "prepare_env \<Rightarrow> string \<Rightarrow> string list \<Rightarrow> string \<Rightarrow> string \<times> effect list" where
  "extract_files env pdf_dir [] all_text = (all_text, [])"
| "extract_files env pdf_dir (filename # rest) all_text =
     (case extract_file env pdf_dir filename all_text of
        (all_text', line) \<Rightarrow>
          (case extract_files env pdf_dir rest all_text' of
             (final_text, lines) \<Rightarrow> (final_text, line # lines)))"

text \<open>The function: what it did, and the string it returns or the exception that leaves it.\<close>

definition extract_text_from_pdfs :: "prepare_env \<Rightarrow> string \<Rightarrow> effect list \<times> (py_exception + string)" where
  "extract_text_from_pdfs env pdf_dir =
     (let t0 = [Print (''Scanning for PDF files in '' @ quoted pdf_dir @ ''...'')]
      in if \<not> pe_path_exists env pdf_dir then
           (t0 @ [Print (''Error: Directory '' @ quoted pdf_dir
                         @ '' not found. Please create it and add your medical PDFs.'')],
            Inr [])
         else
           (case pe_listdir env pdf_dir of
              Inl e \<Rightarrow> (t0, Inl e)
            | Inr names \<Rightarrow>
                let pdf_files = filter is_pdf_name names
                in if pdf_files = [] then
                     (t0 @ [Print (''No PDF files found in '' @ quoted pdf_dir @ ''.'')], Inr [])
                   else
                     (case extract_files env pdf_dir pdf_files [] of
                        (all_text, lines) \<Rightarrow>
                          (t0 @ [Print (''Found '' @ show_nat (length pdf_files)
                                        @ '' PDF(s). Extracting text...'')] @ lines,
                           Inr all_text))))"

definition prepare_data_main :: "prepare_env \<Rightarrow> run_result" where
  "prepare_data_main env =
     (case extract_text_from_pdfs env PDF_SOURCE_DIR of
        (t, Inl e) \<Rightarrow> \<lparr>trace = t, ending = Raised e\<rparr>
      | (t, Inr extracted_text) \<Rightarrow>
          if extracted_text \<noteq> [] then
            (case pe_open_w env OUTPUT_TEXT_FILE of
               Some e \<Rightarrow> \<lparr>trace = t @ [Open_w OUTPUT_TEXT_FILE], ending = Raised e\<rparr>
             | None \<Rightarrow>
                 (case pe_write env OUTPUT_TEXT_FILE extracted_text of
                    Some e \<Rightarrow>
                      \<lparr>trace = t @ [Open_w OUTPUT_TEXT_FILE,
                                    Write_text OUTPUT_TEXT_FILE extracted_text],
                       ending = Raised e\<rparr>
                  | None \<Rightarrow>
                      \<lparr>trace = t @ [Open_w OUTPUT_TEXT_FILE,
                                    Write_text OUTPUT_TEXT_FILE extracted_text,
                                    Print ([nl] @ ''Successfully extracted and saved text to ''
                                           @ quoted OUTPUT_TEXT_FILE @ ''.''),
                                    Print (''Total characters extracted: ''
                                           @ show_nat (length extracted_text))],
                       ending = Returned\<rparr>))
          else
            \<lparr>trace = t @ [Print ([nl] @ ''No text was extracted. Exiting.'')],
             ending = Returned\<rparr>)"

text \<open>The steps that touch the output file.\<close>

fun is_file_write :: "effect \<Rightarrow> bool" where
  "is_file_write (Open_w _) = True"
| "is_file_write (Write_text _ _) = True"
| "is_file_write _ = False"

text \<open>
  The extractor's result said in one piece, to compare the loops with: the texts of the
  pages of a file up to the first page that raises, the text a file adds (each
  non-empty page text followed by a blank line), the exception of the first page that
  raises, if there is one, and the console line a file gets: the success line when the
  file opens and every page is read, the "Could not read" line with the exception's
  text when opening it raises or a page raises.
\<close>

fun readable_pages :: "(py_exception + string) list \<Rightarrow> string list" where
  "readable_pages [] = []"
| "readable_pages (Inl e # pages) = []"
| "readable_pages (Inr txt # pages) = txt # readable_pages pages"

definition file_page_texts :: "prepare_env \<Rightarrow> string \<Rightarrow> string \<Rightarrow> string list" where
  "file_page_texts env pdf_dir filename =
     (case pe_pdf_reader env (path_join pdf_dir filename) of
        Inl e \<Rightarrow> []
      | Inr pages \<Rightarrow> filter (\<lambda>txt. txt \<noteq> []) (readable_pages pages))"

fun first_failure :: "(py_exception + string) list \<Rightarrow> py_exception option" where
  "first_failure [] = None"
| "first_failure (Inl e # pages) = Some e"
| "first_failure (Inr txt # pages) = first_failure pages"

definition file_report :: "prepare_env \<Rightarrow> string \<Rightarrow> string \<Rightarrow> effect" where
  "file_report env pdf_dir filename =
     (case pe_pdf_reader env (path_join pdf_dir filename) of
        Inl e \<Rightarrow> Print ('' - Could not read '' @ filename @ '': '' @ exc_text e)
      | Inr pages \<Rightarrow>
          (case first_failure pages of
             None \<Rightarrow> Print ('' - Successfully extracted text from '' @ filename)
           | Some e \<Rightarrow> Print ('' - Could not read '' @ filename @ '': '' @ exc_text e)))"

section \<open>ingest_data.py: the ingestion pipeline\<close>

definition KNOWLEDGE_BASE_FILE :: string where
  "KNOWLEDGE_BASE_FILE = ''knowledge_base.txt''"

text \<open>
  What the pipeline calls. \<open>TextLoader(file, encoding=...).load()\<close> returns documents
  or raises; so do the splitter's \<open>split_documents\<close> (built with a chunk size and an
  overlap) and the constructor of the embedding function; \<open>os.makedirs\<close> may raise.
  \<open>Chroma.from_documents\<close> works on the persisted store, whose state is \<open>'store\<close>: it
  leaves a new state and returns a collection, of which the code reads the count, or
  raises.
\<close>

record 'store ingest_env =
  ie_load :: "string \<Rightarrow> string \<Rightarrow> py_exception + document list"
  ie_split_documents :: "nat \<Rightarrow> nat \<Rightarrow> document list \<Rightarrow> py_exception + document list"
  ie_path_exists :: "string \<Rightarrow> bool"
  ie_makedirs :: "string \<Rightarrow> py_exception option"
  ie_new_embeddings :: "string \<Rightarrow> string \<Rightarrow> py_exception + embedding_function"
  ie_from_documents ::
    "'store \<Rightarrow> document list \<Rightarrow> embedding_function \<Rightarrow> string \<Rightarrow> string \<Rightarrow> 'store \<times> (py_exception + nat)"

record 'store ingest_result =
  ir_trace :: "effect list"
  ir_store :: 'store
  ir_ending :: outcome

text \<open>The part of \<open>main\<close> after the text is split.\<close>

definition embed_and_store ::
  "'store ingest_env \<Rightarrow> 'store \<Rightarrow> effect list \<Rightarrow> document list \<Rightarrow> 'store ingest_result" where
  "embed_and_store env store t texts =
     (let t1 = t @ [Call_embeddings EMBEDDING_MODEL_NAME MODEL_CACHE_DIR]
      in case ie_new_embeddings env EMBEDDING_MODEL_NAME MODEL_CACHE_DIR of
           Inl e \<Rightarrow> \<lparr>ir_trace = t1, ir_store = store, ir_ending = Raised e\<rparr>
         | Inr embedding_function \<Rightarrow>
             (let t2 = t1 @ [Print ''Embedding model loaded.'',
                            Print (''Creating/loading persistent vector store at ''
                                   @ quoted CHROMA_PERSIST_DIR @ ''...''),
                            Call_from_documents CHROMA_PERSIST_DIR COLLECTION_NAME]
             in case ie_from_documents env store texts embedding_function
                       CHROMA_PERSIST_DIR COLLECTION_NAME of
                  (store', Inl e) \<Rightarrow> \<lparr>ir_trace = t2, ir_store = store', ir_ending = Raised e\<rparr>
                | (store', Inr count) \<Rightarrow>
                    \<lparr>ir_trace = t2 @
                       [Print ''--- Data Ingestion Complete ---'',
                        Print (''Vector store created with '' @ show_nat count @ '' documents.''),
                        Print (''Database saved to '' @ quoted CHROMA_PERSIST_DIR @ ''.'')],
                     ir_store = store', ir_ending = Returned\<rparr>))"

definition ingest_data_main :: "'store ingest_env \<Rightarrow> 'store \<Rightarrow> 'store ingest_result" where
  "ingest_data_main env store =
     (let t0 = [Print ''--- Starting Data Ingestion Process ---'',
                Call_load KNOWLEDGE_BASE_FILE ''utf-8'']
      in case ie_load env KNOWLEDGE_BASE_FILE ''utf-8'' of
           Inl e \<Rightarrow>
             \<lparr>ir_trace = t0 @ [Print (''Error loading knowledge base file: '' @ exc_text e)],
              ir_store = store, ir_ending = Returned\<rparr>
         | Inr documents \<Rightarrow>
             (let t1 = t0 @ [Print (''Successfully loaded '' @ quoted KNOWLEDGE_BASE_FILE @ ''.''),
                            Call_split_documents 1000 200]
             in case ie_split_documents env 1000 200 documents of
                  Inl e \<Rightarrow> \<lparr>ir_trace = t1, ir_store = store, ir_ending = Raised e\<rparr>
                | Inr texts \<Rightarrow>
                    (let t2 = t1 @ [Print (''Split document into '' @ show_nat (length texts)
                                          @ '' chunks.''),
                                   Print (''Loading embedding model: ''
                                          @ quoted EMBEDDING_MODEL_NAME @ ''...'')]
                    in if \<not> ie_path_exists env MODEL_CACHE_DIR then
                         (case ie_makedirs env MODEL_CACHE_DIR of
                            Some e \<Rightarrow>
                              \<lparr>ir_trace = t2 @ [Makedirs MODEL_CACHE_DIR], ir_store = store,
                               ir_ending = Raised e\<rparr>
                          | None \<Rightarrow>
                              embed_and_store env store (t2 @ [Makedirs MODEL_CACHE_DIR]) texts)
                       else embed_and_store env store t2 texts)))"

text \<open>The steps that come after loading: splitting, embedding, writing.\<close>

fun is_ingest_work :: "effect \<Rightarrow> bool" where
  "is_ingest_work (Call_split_documents _ _) = True"
| "is_ingest_work (Call_embeddings _ _) = True"
| "is_ingest_work (Call_from_documents _ _) = True"
| "is_ingest_work (Makedirs _) = True"
| "is_ingest_work (Open_w _) = True"
| "is_ingest_work (Write_text _ _) = True"
| "is_ingest_work _ = False"

section \<open>Sample environments\<close>

definition sample_empty_store :: vector_store_handle where
  "sample_empty_store = \<lparr>vs_truthy = True, vs_asimilarity_search = (\<lambda>q k. Inr [])\<rparr>"

text \<open>A handle that is set, holds nothing, and counts as false.\<close>

definition sample_falsy_empty_store :: vector_store_handle where
  "sample_falsy_empty_store = \<lparr>vs_truthy = False, vs_asimilarity_search = (\<lambda>q k. Inr [])\<rparr>"

definition sample_store :: vector_store_handle where
  "sample_store =
     \<lparr>vs_truthy = True,
      vs_asimilarity_search =
        (\<lambda>q k. Inr (take k [Document ''Fever is a raised body temperature.'',
                             Document ''Rest and fluids help recovery.'']))\<rparr>"


definition sample_llm :: llm_handle where
  "sample_llm = \<lparr>llm_astream = (\<lambda>p. ([''Drink'', '' water''], None))\<rparr>"


definition sample_globals :: "vector_store_handle \<Rightarrow> llm_handle \<Rightarrow> globals" where
  "sample_globals vs l =
     \<lparr>vector_store = Some vs, llm = Some l, prompt_template = Some startup_prompt_template\<rparr>"

definition sample_startup_env :: startup_env where
  "sample_startup_env =
     \<lparr>su_path_exists = (\<lambda>p. p = ''chroma_db''),
      su_new_embeddings = (\<lambda>m c. Inr (SentenceTransformerEmbeddings m c)),
      su_new_chroma = (\<lambda>d e c. Inr sample_store),
      su_new_chat_ollama = (\<lambda>m. Inr sample_llm)\<rparr>"

definition sample_translate_env :: translate_env where
  "sample_translate_env =
     \<lparr>new_google_translator =
        (\<lambda>source target.
           if target = ''fr'' then
             Inr \<lparr>tr_translate =
                    (\<lambda>t. if t = [] then
                           Inl (PyException ''NotValidPayload'' ''text must be a valid text'')
                         else Inr ''bonjour'')\<rparr>
           else Inl (PyException ''LanguageNotSupportedException''
                       (target @ '' --> No support for the provided language.'')))\<rparr>"

definition sample_prepare_env :: prepare_env where
  "sample_prepare_env =
     \<lparr>pe_path_exists = (\<lambda>p. p = ''medical_data''),
      pe_listdir = (\<lambda>p. Inr [''a.pdf'', ''notes.txt'', ''B.PDF'', ''c.Pdf'']),
      pe_pdf_reader =
        (\<lambda>p. if p = ''medical_data/a.pdf'' then Inr [Inr ''Page one'', Inr [], Inr ''Page two'']
             else if p = ''medical_data/B.PDF'' then
               Inl (PyException ''PdfReadError'' ''EOF marker not found'')
             else Inr [Inr ''Last'']),
      pe_open_w = (\<lambda>p. None),
      pe_write = (\<lambda>p t. None)\<rparr>"

definition sample_missing_dir_env :: prepare_env where
  "sample_missing_dir_env = sample_prepare_env\<lparr>pe_path_exists := (\<lambda>p. False)\<rparr>"

definition sample_no_pdf_env :: prepare_env where
  "sample_no_pdf_env = sample_prepare_env\<lparr>pe_listdir := (\<lambda>p. Inr [''notes.txt'', ''pdf''])\<rparr>"

definition sample_blank_pdf_env :: prepare_env where
  "sample_blank_pdf_env =
     sample_prepare_env\<lparr>pe_listdir := (\<lambda>p. Inr [''scan.pdf'']),
                        pe_pdf_reader := (\<lambda>p. Inr [Inr [], Inr []])\<rparr>"

text \<open>
  A directory with a file that cannot be opened (\<open>B.PDF\<close>) and a file whose second
  page raises (\<open>c.Pdf\<close>), each followed by a file that reads well.
\<close>

definition sample_failing_page_env :: prepare_env where
  "sample_failing_page_env =
     \<lparr>pe_path_exists = (\<lambda>p. p = ''medical_data''),
      pe_listdir = (\<lambda>p. Inr [''B.PDF'', ''a.pdf'', ''notes.txt'', ''c.Pdf'', ''d.pdf'']),
      pe_pdf_reader =
        (\<lambda>p. if p = ''medical_data/a.pdf'' then Inr [Inr ''Page one'', Inr [], Inr ''Page two'']
             else if p = ''medical_data/B.PDF'' then
               Inl (PyException ''PdfReadError'' ''EOF marker not found'')
             else if p = ''medical_data/c.Pdf'' then
               Inr [Inr ''Kept'', Inl (PyException ''ValueError'' ''bad page''), Inr ''Lost'']
             else Inr [Inr ''Last'']),
      pe_open_w = (\<lambda>p. None),
      pe_write = (\<lambda>p t. None)\<rparr>"

text \<open>An ingestion run whose store is the number of documents it holds.\<close>

definition sample_ingest_env :: "nat ingest_env" where
  "sample_ingest_env =
     \<lparr>ie_load = (\<lambda>file enc. Inl (PyException ''RuntimeError'' (''Error loading '' @ file))),
      ie_split_documents = (\<lambda>size overlap docs. Inr docs),
      ie_path_exists = (\<lambda>p. False),
      ie_makedirs = (\<lambda>p. None),
      ie_new_embeddings = (\<lambda>m c. Inr (SentenceTransformerEmbeddings m c)),
      ie_from_documents = (\<lambda>n docs e d c. (n + length docs, Inr (n + length docs)))\<rparr>"

section \<open>Properties of the query server\<close>

subsection \<open>Events of a trace\<close>

lemma events_of_append: "events_of (a @ b) = events_of a @ events_of b"
  by (induction a rule: events_of.induct) simp_all

lemma events_of_type_out: "events_of (type_out s) = map (\<lambda>c. sse_event [c]) s"
  by (induction s) simp_all

lemma events_of_relay:
  "events_of (map (\<lambda>content. Yield (sse_event content)) chunks) = map sse_event chunks"
  by (induction chunks) simp_all

subsection \<open>Formatting the prompt\<close>

lemma prepend_Nil: "prepend [] r = r"
  by (cases r) (simp_all add: prepend_def)

lemma prepend_prepend: "prepend xs (prepend ys r) = prepend (xs @ ys) r"
  by (cases r) (simp_all add: prepend_def)

text \<open>Text without braces is copied.\<close>

lemma str_format_plain:
  "CHR ''{'' \<notin> set xs \<Longrightarrow> CHR ''}'' \<notin> set xs \<Longrightarrow>
     str_format kw (xs @ rest) = prepend xs (str_format kw rest)"
proof (induction xs)
  case Nil
  show ?case by (simp add: prepend_Nil)
next
  case (Cons x xs)
  then have x: "x \<noteq> CHR ''{''" "x \<noteq> CHR ''}''"
    by auto
  have "str_format kw (xs @ rest) = prepend xs (str_format kw rest)"
    using Cons by simp
  with x show ?case
    by (simp add: prepend_prepend)
qed

lemma template_head_plain: "CHR ''{'' \<notin> set template_head \<and> CHR ''}'' \<notin> set template_head"
  by (simp add: template_head_def nl_def apostrophe_def)

lemma template_middle_plain: "CHR ''{'' \<notin> set template_middle \<and> CHR ''}'' \<notin> set template_middle"
  by (simp add: template_middle_def nl_def)

lemma template_tail_plain: "CHR ''{'' \<notin> set template_tail \<and> CHR ''}'' \<notin> set template_tail"
  by (simp add: template_tail_def nl_def)

lemma str_format_context:
  "str_format [(''context'', c), (''question'', q)] (''{context}'' @ rest)
     = prepend c (str_format [(''context'', c), (''question'', q)] rest)"
  by (simp add: not_close_brace_def lookup_kw_def)

lemma str_format_question:
  "str_format [(''context'', c), (''question'', q)] (''{question}'' @ rest)
     = prepend q (str_format [(''context'', c), (''question'', q)] rest)"
  by (simp add: not_close_brace_def lookup_kw_def)

text \<open>
  Formatting the template of the startup hook never raises, and gives the template with
  \<open>{context}\<close> and \<open>{question}\<close> replaced.
\<close>

lemma format_startup_template:
  "pt_format startup_prompt_template [(''context'', c), (''question'', q)]
     = Inr (template_head @ c @ template_middle @ q @ template_tail)"
proof -
  let ?kw = "[(''context'', c), (''question'', q)]"
  have t: "str_format ?kw template_tail = Inr template_tail"
    using str_format_plain [of template_tail ?kw "[]"] template_tail_plain
    by (simp add: prepend_def)
  have "str_format ?kw (''{question}'' @ template_tail) = Inr (q @ template_tail)"
    by (simp only: str_format_question t) (simp add: prepend_def)
  then have "str_format ?kw (template_middle @ ''{question}'' @ template_tail)
               = Inr (template_middle @ q @ template_tail)"
    using str_format_plain [of template_middle ?kw "''{question}'' @ template_tail"]
      template_middle_plain by (simp add: prepend_def)
  then have "str_format ?kw (''{context}'' @ template_middle @ ''{question}'' @ template_tail)
               = Inr (c @ template_middle @ q @ template_tail)"
    by (simp only: str_format_context) (simp add: prepend_def)
  then have "str_format ?kw template_text
               = Inr (template_head @ c @ template_middle @ q @ template_tail)"
    unfolding template_text_def
    using str_format_plain [of template_head ?kw
        "''{context}'' @ template_middle @ ''{question}'' @ template_tail"]
      template_head_plain by (simp add: prepend_def)
  then show ?thesis
    by (simp add: pt_format_def startup_prompt_template_def)
qed

subsection \<open>The globals after startup\<close>

lemma startup_returned_ready:
  assumes "su_ending (startup_event env initial_globals) = Returned"
    and "vector_store (su_globals (startup_event env initial_globals)) = Some vs"
  shows "prompt_template (su_globals (startup_event env initial_globals))
           = Some startup_prompt_template
         \<and> (\<exists>l. llm (su_globals (startup_event env initial_globals)) = Some l)"
  using assms
  by (auto simp add: startup_event_def initial_globals_def Let_def split: sum.splits if_splits)

text \<open>The run of the generator when documents are found and both other globals are set.\<close>

lemma relay_with_startup_template:
  assumes "vector_store g = Some vs" and "vs_truthy vs"
    and "prompt_template g = Some startup_prompt_template" and "llm g = Some l"
    and "vs_asimilarity_search vs query 5 = Inr docs" and "docs \<noteq> []"
    and "formatted_prompt = template_head @ join [nl, nl] (map page_content docs)
                              @ template_middle @ query @ template_tail"
    and "llm_astream l formatted_prompt = (chunks, fin)"
  shows "stream_chat_response g query =
           \<lparr>trace = [Print (''Searching for context for: '' @ quoted query),
                     Call_asimilarity_search query 5,
                     Print (''Found '' @ show_nat (length docs) @ '' relevant documents.''),
                     Call_astream formatted_prompt]
                    @ map (\<lambda>content. Yield (sse_event content)) chunks
                    @ (case fin of None \<Rightarrow> [] | Some e \<Rightarrow> chat_except_handler e),
            ending = Returned\<rparr>"
proof -
  have tb: "chat_try_block g vs query =
              ([Print (''Searching for context for: '' @ quoted query),
                Call_asimilarity_search query 5,
                Print (''Found '' @ show_nat (length docs) @ '' relevant documents.''),
                Call_astream formatted_prompt]
               @ map (\<lambda>content. Yield (sse_event content)) chunks, fin)"
    using assms by (simp add: chat_try_block_def Let_def format_startup_template)
  show ?thesis
    using assms(1,2) by (cases fin) (simp_all add: stream_chat_response_def tb)
qed

subsection \<open>The run in a task and the run that is not cancelled\<close>







subsection \<open>The claims\<close>

text \<open>
  C1. Whatever the query, when the generator is invoked while the global
  \<open>vector_store\<close> is still \<open>None\<close>, it yields exactly one event, the event carries the
  not-initialized message, the generator then returns, and the run contains neither a
  similarity search nor a call of the language model. The other two globals play no
  part.
\<close>

theorem unset_store_single_event:
  "vector_store g = None \<Longrightarrow>
     events_of (trace (stream_chat_response g query)) = [sse_event error_message]
     \<and> ending (stream_chat_response g query) = Returned
     \<and> \<not> list_ex is_library_call (trace (stream_chat_response g query))"
  by (simp add: stream_chat_response_def)

theorem unset_store_single_event_witness:
  "vector_store initial_globals = None
   \<and> events_of (trace (stream_chat_response initial_globals ''fever''))
       = [''data: Vector store is not initialized. Please check server startup logs.'' @ [CHR 0x0A, CHR 0x0A]]
   \<and> ending (stream_chat_response initial_globals ''fever'') = Returned
   \<and> \<not> list_ex is_library_call (trace (stream_chat_response initial_globals ''fever''))"
  using unset_store_single_event [of initial_globals "''fever''"]
  by (simp add: initial_globals_def sse_event_def error_message_def nl_def)





text \<open>
  C3. The claim is that, with the vector store set, a search that returns the empty
  list gives one event per character of the disclaimer and nothing else. The guard of
  the generator is \<open>if not vector_store\<close>, a test of truth and not of \<open>None\<close>. A handle
  that is set but counts as false, as a store holding no documents does, and whose
  search returns the empty list, gets the single not-initialized event; the search is
  never made and the disclaimer is never sent.
\<close>

theorem falsy_store_answers_not_initialized:
  "vector_store (sample_globals sample_falsy_empty_store sample_llm) = Some sample_falsy_empty_store
   \<and> vs_asimilarity_search sample_falsy_empty_store ''gout'' 5 = Inr []
   \<and> stream_chat_response (sample_globals sample_falsy_empty_store sample_llm) ''gout''
       = \<lparr>trace = [Yield (''data: Vector store is not initialized. Please check server startup logs.''
                           @ [CHR 0x0A, CHR 0x0A])],
          ending = Returned\<rparr>
   \<and> events_of (trace (stream_chat_response (sample_globals sample_falsy_empty_store sample_llm) ''gout''))
       \<noteq> map (\<lambda>c. sse_event [c]) no_context_message"
  by (simp add: stream_chat_response_def sample_globals_def sample_falsy_empty_store_def
      sse_event_def error_message_def nl_def no_context_message_def)

text \<open>
  When the handle does pass the guard and the search for the top 5 returns the empty
  list, the events of the run are exactly the characters of the fixed disclaimer, one
  event per character and in order, and the generator returns.
\<close>

theorem empty_retrieval_types_disclaimer:
  "vector_store g = Some vs \<Longrightarrow> vs_truthy vs \<Longrightarrow> vs_asimilarity_search vs query 5 = Inr [] \<Longrightarrow>
     events_of (trace (stream_chat_response g query)) = map (\<lambda>c. sse_event [c]) no_context_message
     \<and> ending (stream_chat_response g query) = Returned"
  by (simp add: stream_chat_response_def chat_try_block_def events_of_append events_of_type_out)

theorem empty_retrieval_types_disclaimer_witness:
  "events_of (trace (stream_chat_response (sample_globals sample_empty_store sample_llm) ''gout''))
     = map (\<lambda>c. ''data: '' @ [c] @ [CHR 0x0A, CHR 0x0A]) no_context_message
   \<and> length (events_of (trace (stream_chat_response (sample_globals sample_empty_store sample_llm) ''gout''))) = 230
   \<and> ending (stream_chat_response (sample_globals sample_empty_store sample_llm) ''gout'') = Returned"
  using empty_retrieval_types_disclaimer
    [of "sample_globals sample_empty_store sample_llm" sample_empty_store "''gout''"]
  by (simp add: sample_globals_def sample_empty_store_def sse_event_def nl_def no_context_message_def)

text \<open>
  C4. Take the globals as the startup hook leaves them when it returns, with the vector
  store set (the handle passes \<open>if not vector_store\<close>). Whatever the query, if the
  search returns a non-empty list of documents, then the run asks the store once, for
  the top 5; the prompt handed to the language model is the template text with
  \<open>{context}\<close> replaced by the documents' texts joined by a blank line and
  \<open>{question}\<close> replaced by the query; and every chunk the model streams becomes one
  event, in order. When the model's stream completes these are all the events, and the
  generator returns.
\<close>

theorem retrieval_prompt_relay:
  assumes "su_ending (startup_event env initial_globals) = Returned"
    and "g = su_globals (startup_event env initial_globals)"
    and "vector_store g = Some vs" and "vs_truthy vs"
    and "vs_asimilarity_search vs query 5 = Inr docs" and "docs \<noteq> []"
    and "formatted_prompt = template_head @ join [nl, nl] (map page_content docs)
                              @ template_middle @ query @ template_tail"
  shows "\<exists>l chunks fin.
           llm g = Some l \<and> llm_astream l formatted_prompt = (chunks, fin)
           \<and> trace (stream_chat_response g query) =
               [Print (''Searching for context for: '' @ quoted query),
                Call_asimilarity_search query 5,
                Print (''Found '' @ show_nat (length docs) @ '' relevant documents.''),
                Call_astream formatted_prompt]
               @ map (\<lambda>content. Yield (sse_event content)) chunks
               @ (case fin of None \<Rightarrow> [] | Some e \<Rightarrow> chat_except_handler e)
           \<and> (fin = None \<longrightarrow>
                events_of (trace (stream_chat_response g query)) = map sse_event chunks)
           \<and> ending (stream_chat_response g query) = Returned"
proof -
  from assms(1,2,3) obtain l where pt: "prompt_template g = Some startup_prompt_template"
    and l: "llm g = Some l"
    using startup_returned_ready [of env vs] by auto
  obtain chunks fin where a: "llm_astream l formatted_prompt = (chunks, fin)"
    by (cases "llm_astream l formatted_prompt")
  note r = relay_with_startup_template [OF assms(3,4) pt l assms(5,6,7) a]
  have "fin = None \<longrightarrow> events_of (trace (stream_chat_response g query)) = map sse_event chunks"
    by (simp add: r events_of_append events_of_relay)
  with l a r show ?thesis
    by simp
qed

theorem retrieval_prompt_relay_witness:
  "events_of (trace (stream_chat_response
       (su_globals (startup_event sample_startup_env initial_globals)) ''what helps?''))
     = [''data: Drink'' @ [CHR 0x0A, CHR 0x0A], ''data:  water'' @ [CHR 0x0A, CHR 0x0A]]
   \<and> trace (stream_chat_response
       (su_globals (startup_event sample_startup_env initial_globals)) ''what helps?'')
     = [Print (''Searching for context for: '' @ quoted ''what helps?''),
        Call_asimilarity_search ''what helps?'' 5,
        Print ''Found 2 relevant documents.'',
        Call_astream (template_head
                      @ (''Fever is a raised body temperature.'' @ [CHR 0x0A, CHR 0x0A]
                         @ ''Rest and fluids help recovery.'')
                      @ template_middle @ ''what helps?'' @ template_tail),
        Yield (sse_event ''Drink''), Yield (sse_event '' water'')]
   \<and> ending (stream_chat_response
       (su_globals (startup_event sample_startup_env initial_globals)) ''what helps?'') = Returned"
proof -
  let ?g = "su_globals (startup_event sample_startup_env initial_globals)"
  let ?docs = "[Document ''Fever is a raised body temperature.'',
                Document ''Rest and fluids help recovery.'']"
  have r: "su_ending (startup_event sample_startup_env initial_globals) = Returned"
    by (simp add: startup_event_def sample_startup_env_def CHROMA_PERSIST_DIR_def Let_def)
  have g: "?g = \<lparr>vector_store = Some sample_store, llm = Some sample_llm,
                 prompt_template = Some startup_prompt_template\<rparr>"
    by (simp add: startup_event_def sample_startup_env_def CHROMA_PERSIST_DIR_def Let_def
        initial_globals_def)
  have v: "vector_store ?g = Some sample_store" "vs_truthy sample_store"
    "vs_asimilarity_search sample_store ''what helps?'' 5 = Inr ?docs" "?docs \<noteq> []"
    by (simp_all add: g sample_store_def)
  from retrieval_prompt_relay [OF r refl v refl]
  show ?thesis
    by (auto simp add: g sample_llm_def sse_event_def nl_def show_nat.simps digit_char_def)
qed

text \<open>
  C8. Whatever the request and whatever the translator does, the handler returns a
  \<open>dict\<close> and no exception leaves it, so the route answers with status 200 and a JSON
  body. If building the translator raises (as it does for a language code it does not
  accept) or \<open>translate\<close> raises, the body is \<open>{"error": str(e)}\<close>; otherwise it is
  \<open>{"translated_text": result}\<close>. A request built without \<open>source_lang\<close> has
  \<open>source_lang = "auto"\<close>.
\<close>

theorem translate_always_answers:
  "status_code (post_translate env request) = 200
   \<and> (\<forall>e. snd (translate_text env request) \<noteq> Inl e)
   \<and> (new_google_translator env (req_source_lang request) (req_target_lang request) = Inl e \<longrightarrow>
        json_body (post_translate env request) = [(''error'', exc_text e)])
   \<and> (new_google_translator env (req_source_lang request) (req_target_lang request) = Inr translator \<longrightarrow>
        tr_translate translator (req_text request) = Inl e \<longrightarrow>
        json_body (post_translate env request) = [(''error'', exc_text e)])
   \<and> (new_google_translator env (req_source_lang request) (req_target_lang request) = Inr translator \<longrightarrow>
        tr_translate translator (req_text request) = Inr result \<longrightarrow>
        json_body (post_translate env request) = [(''translated_text'', result)])
   \<and> req_source_lang (new_TranslationRequest txt target None) = ''auto''"
  by (simp add: post_translate_def translate_text_def new_TranslationRequest_def
      split: sum.splits)

theorem translate_always_answers_witness:
  "post_translate sample_translate_env (new_TranslationRequest ''hello'' ''fr'' None)
     = \<lparr>status_code = 200, json_body = [(''translated_text'', ''bonjour'')]\<rparr>
   \<and> post_translate sample_translate_env (new_TranslationRequest ''hello'' ''xx'' (Some ''en''))
     = \<lparr>status_code = 200,
        json_body = [(''error'', ''xx --> No support for the provided language.'')]\<rparr>
   \<and> post_translate sample_translate_env (new_TranslationRequest [] ''fr'' None)
     = \<lparr>status_code = 200, json_body = [(''error'', ''text must be a valid text'')]\<rparr>"
proof -
  let ?ok = "new_TranslationRequest ''hello'' ''fr'' None"
  let ?bad_lang = "new_TranslationRequest ''hello'' ''xx'' (Some ''en'')"
  let ?bad_text = "new_TranslationRequest [] ''fr'' None"
  let ?fr = "\<lparr>tr_translate =
                (\<lambda>t. if t = [] then
                       Inl (PyException ''NotValidPayload'' ''text must be a valid text'')
                     else Inr ''bonjour'')\<rparr>"
  have a: "new_google_translator sample_translate_env (req_source_lang ?ok) (req_target_lang ?ok) = Inr ?fr"
    "tr_translate ?fr (req_text ?ok) = Inr ''bonjour''"
    by (simp_all add: sample_translate_env_def new_TranslationRequest_def)
  have b: "new_google_translator sample_translate_env (req_source_lang ?bad_lang) (req_target_lang ?bad_lang)
             = Inl (PyException ''LanguageNotSupportedException'' ''xx --> No support for the provided language.'')"
    by (simp add: sample_translate_env_def new_TranslationRequest_def)
  have c: "new_google_translator sample_translate_env (req_source_lang ?bad_text) (req_target_lang ?bad_text) = Inr ?fr"
    "tr_translate ?fr (req_text ?bad_text) = Inl (PyException ''NotValidPayload'' ''text must be a valid text'')"
    by (simp_all add: sample_translate_env_def new_TranslationRequest_def)
  show ?thesis
    using translate_always_answers [of sample_translate_env ?ok _ ?fr "''bonjour''"]
      translate_always_answers [of sample_translate_env ?bad_lang
        "PyException ''LanguageNotSupportedException'' ''xx --> No support for the provided language.''"]
      translate_always_answers [of sample_translate_env ?bad_text
        "PyException ''NotValidPayload'' ''text must be a valid text''" ?fr]
      a b c
    by (simp add: http_response.equality)
qed

text \<open>
  C10. Start from the module's initial globals and let the startup hook run to its
  return. Then the vector store is set exactly when the language model client and the
  prompt template are both set. If the persisted directory is missing, all three are
  still unset. And whenever the vector store then passes the generator's guard (it is
  set and counts as true), the prompt template is the one built by the hook and the
  language model client is set.
\<close>

theorem startup_all_or_nothing:
  assumes "su_ending (startup_event env initial_globals) = Returned"
    and "g = su_globals (startup_event env initial_globals)"
  shows "(vector_store g \<noteq> None \<longleftrightarrow> llm g \<noteq> None \<and> prompt_template g \<noteq> None)
         \<and> (\<not> su_path_exists env CHROMA_PERSIST_DIR \<longrightarrow>
               vector_store g = None \<and> llm g = None \<and> prompt_template g = None)
         \<and> (vector_store g = Some vs \<and> vs_truthy vs \<longrightarrow>
               prompt_template g = Some startup_prompt_template \<and> llm g \<noteq> None)"
  using assms
  by (auto simp add: startup_event_def initial_globals_def Let_def split: sum.splits if_splits)

theorem startup_all_or_nothing_witness:
  "su_ending (startup_event sample_startup_env initial_globals) = Returned
   \<and> vector_store (su_globals (startup_event sample_startup_env initial_globals)) \<noteq> None
   \<and> llm (su_globals (startup_event sample_startup_env initial_globals)) \<noteq> None
   \<and> prompt_template (su_globals (startup_event sample_startup_env initial_globals))
       = Some startup_prompt_template"
proof -
  have r: "su_ending (startup_event sample_startup_env initial_globals) = Returned"
    by (simp add: startup_event_def sample_startup_env_def CHROMA_PERSIST_DIR_def Let_def)
  have v: "vector_store (su_globals (startup_event sample_startup_env initial_globals)) = Some sample_store"
    by (simp add: startup_event_def sample_startup_env_def CHROMA_PERSIST_DIR_def Let_def)
  have t: "vs_truthy sample_store"
    by (simp add: sample_store_def)
  show ?thesis
    using startup_all_or_nothing [OF r refl, of sample_store] r v t by simp
qed

section \<open>Properties of the PDF extractor\<close>

subsection \<open>The loops said in one piece\<close>

lemma fst_extract_pages:
  "fst (extract_pages pages acc)
     = acc @ concat (map (\<lambda>t. t @ [nl, nl]) (filter (\<lambda>t. t \<noteq> []) (readable_pages pages)))"
  by (induction pages acc rule: extract_pages.induct) simp_all

text \<open>The page loop is left by the exception of the first page that raises.\<close>

lemma snd_extract_pages: "snd (extract_pages pages acc) = first_failure pages"
  by (induction pages acc rule: extract_pages.induct) simp_all

lemma extract_file_eq:
  "extract_file env pdf_dir filename acc
     = (acc @ concat (map (\<lambda>t. t @ [nl, nl]) (file_page_texts env pdf_dir filename)),
        file_report env pdf_dir filename)"
proof (cases "pe_pdf_reader env (path_join pdf_dir filename)")
  case (Inl e)
  then show ?thesis
    by (simp add: extract_file_def file_page_texts_def file_report_def)
next
  case (Inr pages)
  have f: "fst (extract_pages pages acc)
             = acc @ concat (map (\<lambda>t. t @ [nl, nl]) (filter (\<lambda>t. t \<noteq> []) (readable_pages pages)))"
    by (rule fst_extract_pages)
  have s: "snd (extract_pages pages acc) = first_failure pages"
    by (rule snd_extract_pages)
  obtain t r where tr: "extract_pages pages acc = (t, r)"
    by (cases "extract_pages pages acc")
  have t: "t = acc @ concat (map (\<lambda>t. t @ [nl, nl]) (filter (\<lambda>t. t \<noteq> []) (readable_pages pages)))"
    using f tr by simp
  have r: "first_failure pages = r"
    using s tr by simp
  show ?thesis
    by (cases r) (simp_all add: extract_file_def file_page_texts_def file_report_def Inr tr t r)
qed

lemma extract_files_eq:
  "extract_files env pdf_dir files acc
     = (acc @ concat (map (\<lambda>t. t @ [nl, nl]) (concat (map (file_page_texts env pdf_dir) files))),
        map (file_report env pdf_dir) files)"
  by (induction files arbitrary: acc) (simp_all add: extract_file_eq)

lemma concat_sep_join:
  "ts \<noteq> [] \<Longrightarrow> concat (map (\<lambda>t. t @ sep) ts) = join sep ts @ sep"
  by (induction sep ts rule: join.induct) simp_all

lemma length_lower: "length (lower s) = length s"
  by (simp add: lower_def)

lemma is_pdf_name_iff:
  "is_pdf_name f \<longleftrightarrow> (\<exists>stem ext. f = stem @ ext \<and> lower ext = ''.pdf'')"
proof
  assume a: "is_pdf_name f"
  define k where "k = length f - length ''.pdf''"
  have d: "drop k (lower f) = ''.pdf''"
    using a unfolding is_pdf_name_def endswith_def k_def length_lower by blast
  have "f = take k f @ drop k f"
    by simp
  moreover have "lower (drop k f) = ''.pdf''"
    using d by (simp add: lower_def drop_map)
  ultimately show "\<exists>stem ext. f = stem @ ext \<and> lower ext = ''.pdf''"
    by blast
next
  assume "\<exists>stem ext. f = stem @ ext \<and> lower ext = ''.pdf''"
  then obtain stem ext where f: "f = stem @ ext" and e: "lower ext = ''.pdf''"
    by blast
  from e have "length ext = 4"
    using length_lower [of ext] by simp
  with f e show "is_pdf_name f"
    by (simp add: is_pdf_name_def endswith_def lower_def)
qed

lemma file_report_no_write: "\<not> is_file_write (file_report env pdf_dir filename)"
  by (simp add: file_report_def split: sum.splits option.splits)

lemma extract_text_no_write: "\<not> list_ex is_file_write (fst (extract_text_from_pdfs env pdf_dir))"
  by (simp add: extract_text_from_pdfs_def Let_def extract_files_eq list_ex_iff
      file_report_no_write split: sum.splits)


subsection \<open>The claims\<close>

text \<open>
  C6. Three runs of \<open>main\<close> write nothing and return. If the source directory does
  not exist, the console shows the scan line, the directory error and the closing
  "No text was extracted" line. If the directory lists no name ending in \<open>.pdf\<close>, the
  console shows the scan line, the "No PDF files found" line and the closing line. And
  whenever the extraction returns the empty string (these two cases, or PDFs that yield
  no text), the run is the extraction's console lines followed by the closing line, it
  neither opens nor writes a file, and no exception leaves it.
\<close>

theorem nothing_extracted_nothing_written:
  "(\<not> pe_path_exists env PDF_SOURCE_DIR \<longrightarrow>
      trace (prepare_data_main env)
        = [Print (''Scanning for PDF files in '' @ quoted PDF_SOURCE_DIR @ ''...''),
           Print (''Error: Directory '' @ quoted PDF_SOURCE_DIR
                  @ '' not found. Please create it and add your medical PDFs.''),
           Print ([nl] @ ''No text was extracted. Exiting.'')]
      \<and> ending (prepare_data_main env) = Returned)
   \<and> (pe_path_exists env PDF_SOURCE_DIR \<longrightarrow> pe_listdir env PDF_SOURCE_DIR = Inr names \<longrightarrow>
        filter is_pdf_name names = [] \<longrightarrow>
      trace (prepare_data_main env)
        = [Print (''Scanning for PDF files in '' @ quoted PDF_SOURCE_DIR @ ''...''),
           Print (''No PDF files found in '' @ quoted PDF_SOURCE_DIR @ ''.''),
           Print ([nl] @ ''No text was extracted. Exiting.'')]
      \<and> ending (prepare_data_main env) = Returned)
   \<and> (snd (extract_text_from_pdfs env PDF_SOURCE_DIR) = Inr [] \<longrightarrow>
      trace (prepare_data_main env)
        = fst (extract_text_from_pdfs env PDF_SOURCE_DIR)
          @ [Print ([nl] @ ''No text was extracted. Exiting.'')]
      \<and> \<not> list_ex is_file_write (trace (prepare_data_main env))
      \<and> ending (prepare_data_main env) = Returned)"
proof (intro conjI impI)
  assume "snd (extract_text_from_pdfs env PDF_SOURCE_DIR) = Inr []"
  then have e: "extract_text_from_pdfs env PDF_SOURCE_DIR
                  = (fst (extract_text_from_pdfs env PDF_SOURCE_DIR), Inr [])"
    by (metis prod.collapse)
  have m: "prepare_data_main env
             = \<lparr>trace = fst (extract_text_from_pdfs env PDF_SOURCE_DIR)
                         @ [Print ([nl] @ ''No text was extracted. Exiting.'')],
                ending = Returned\<rparr>"
    by (subst prepare_data_main_def, subst e) simp
  show "trace (prepare_data_main env)
          = fst (extract_text_from_pdfs env PDF_SOURCE_DIR)
            @ [Print ([nl] @ ''No text was extracted. Exiting.'')]"
    by (simp add: m)
  show "\<not> list_ex is_file_write (trace (prepare_data_main env))"
    using extract_text_no_write [of env PDF_SOURCE_DIR] by (simp add: m)
  show "ending (prepare_data_main env) = Returned"
    by (simp add: m)
qed (simp_all add: prepare_data_main_def extract_text_from_pdfs_def)

theorem nothing_extracted_nothing_written_witness:
  "trace (prepare_data_main sample_missing_dir_env)
     = [Print (''Scanning for PDF files in '' @ quoted ''medical_data'' @ ''...''),
        Print (''Error: Directory '' @ quoted ''medical_data''
               @ '' not found. Please create it and add your medical PDFs.''),
        Print ([CHR 0x0A] @ ''No text was extracted. Exiting.'')]
   \<and> ending (prepare_data_main sample_missing_dir_env) = Returned
   \<and> trace (prepare_data_main sample_no_pdf_env)
     = [Print (''Scanning for PDF files in '' @ quoted ''medical_data'' @ ''...''),
        Print (''No PDF files found in '' @ quoted ''medical_data'' @ ''.''),
        Print ([CHR 0x0A] @ ''No text was extracted. Exiting.'')]
   \<and> ending (prepare_data_main sample_no_pdf_env) = Returned
   \<and> \<not> list_ex is_file_write (trace (prepare_data_main sample_blank_pdf_env))
   \<and> ending (prepare_data_main sample_blank_pdf_env) = Returned"
proof -
  have a: "\<not> pe_path_exists sample_missing_dir_env PDF_SOURCE_DIR"
    by (simp add: sample_missing_dir_env_def)
  have b: "pe_path_exists sample_no_pdf_env PDF_SOURCE_DIR"
    "pe_listdir sample_no_pdf_env PDF_SOURCE_DIR = Inr [''notes.txt'', ''pdf'']"
    "filter is_pdf_name [''notes.txt'', ''pdf''] = []"
    by (simp_all add: sample_no_pdf_env_def sample_prepare_env_def PDF_SOURCE_DIR_def
        is_pdf_name_def endswith_def lower_def lower_char_def)
  have c: "snd (extract_text_from_pdfs sample_blank_pdf_env PDF_SOURCE_DIR) = Inr []"
    by (simp add: sample_blank_pdf_env_def sample_prepare_env_def PDF_SOURCE_DIR_def
        extract_text_from_pdfs_def is_pdf_name_def endswith_def lower_def lower_char_def
        extract_file_def)
  note missing = nothing_extracted_nothing_written
    [of sample_missing_dir_env "[]", THEN conjunct1, rule_format, OF a]
  note no_pdf = nothing_extracted_nothing_written
    [of sample_no_pdf_env "[''notes.txt'', ''pdf'']", THEN conjunct2, THEN conjunct1,
     rule_format, OF b]
  note blank = nothing_extracted_nothing_written
    [of sample_blank_pdf_env "[]", THEN conjunct2, THEN conjunct2, rule_format, OF c]
  from missing no_pdf blank show ?thesis
    unfolding PDF_SOURCE_DIR_def nl_def by blast
qed

text \<open>
  C9. For a directory that exists and can be listed, with at least one PDF name: the
  files taken are exactly the listed names that end in \<open>.pdf\<close> in any mix of upper and
  lower case, in listing order; each of them gets one console line, a success line or,
  when opening it or reading one of its pages raises, a "Could not read" line, and the
  files after it are still read; the function returns, and the text it returns is every
  non-empty page text, file after file and page after page (for a file that fails, the
  pages before the failure), each followed by a blank line, which is the same as the
  texts joined by a blank line and closed by one.
\<close>

theorem extractor_reads_every_pdf:
  assumes "pe_path_exists env pdf_dir"
    and "pe_listdir env pdf_dir = Inr names"
    and "pdf_files = filter is_pdf_name names"
    and "pdf_files \<noteq> []"
    and "texts = concat (map (file_page_texts env pdf_dir) pdf_files)"
  shows "extract_text_from_pdfs env pdf_dir
           = ([Print (''Scanning for PDF files in '' @ quoted pdf_dir @ ''...''),
               Print (''Found '' @ show_nat (length pdf_files) @ '' PDF(s). Extracting text...'')]
              @ map (file_report env pdf_dir) pdf_files,
              Inr (concat (map (\<lambda>t. t @ [nl, nl]) texts)))
         \<and> (texts \<noteq> [] \<longrightarrow>
              concat (map (\<lambda>t. t @ [nl, nl]) texts) = join [nl, nl] texts @ [nl, nl])
         \<and> (\<forall>f. is_pdf_name f \<longleftrightarrow> (\<exists>stem ext. f = stem @ ext \<and> lower ext = ''.pdf''))"
  using assms
  by (simp add: extract_text_from_pdfs_def Let_def extract_files_eq concat_sep_join
      is_pdf_name_iff)

theorem extractor_reads_every_pdf_witness:
  "extract_text_from_pdfs sample_failing_page_env ''medical_data''
     = ([Print (''Scanning for PDF files in '' @ quoted ''medical_data'' @ ''...''),
         Print ''Found 4 PDF(s). Extracting text...'',
         Print '' - Could not read B.PDF: EOF marker not found'',
         Print '' - Successfully extracted text from a.pdf'',
         Print '' - Could not read c.Pdf: bad page'',
         Print '' - Successfully extracted text from d.pdf''],
        Inr (''Page one'' @ [CHR 0x0A, CHR 0x0A] @ ''Page two'' @ [CHR 0x0A, CHR 0x0A]
             @ ''Kept'' @ [CHR 0x0A, CHR 0x0A] @ ''Last'' @ [CHR 0x0A, CHR 0x0A]))"
proof -
  have f: "filter is_pdf_name [''B.PDF'', ''a.pdf'', ''notes.txt'', ''c.Pdf'', ''d.pdf'']
             = [''B.PDF'', ''a.pdf'', ''c.Pdf'', ''d.pdf'']"
    by (simp add: is_pdf_name_def endswith_def lower_def lower_char_def)
  have t: "concat (map (file_page_texts sample_failing_page_env ''medical_data'')
                    [''B.PDF'', ''a.pdf'', ''c.Pdf'', ''d.pdf''])
             = [''Page one'', ''Page two'', ''Kept'', ''Last'']"
    by (simp add: file_page_texts_def sample_failing_page_env_def path_join_def)
  have r: "map (file_report sample_failing_page_env ''medical_data'')
             [''B.PDF'', ''a.pdf'', ''c.Pdf'', ''d.pdf'']
             = [Print '' - Could not read B.PDF: EOF marker not found'',
                Print '' - Successfully extracted text from a.pdf'',
                Print '' - Could not read c.Pdf: bad page'',
                Print '' - Successfully extracted text from d.pdf'']"
    by (simp add: file_report_def sample_failing_page_env_def path_join_def)
  have e: "pe_path_exists sample_failing_page_env ''medical_data''"
    "pe_listdir sample_failing_page_env ''medical_data''
       = Inr [''B.PDF'', ''a.pdf'', ''notes.txt'', ''c.Pdf'', ''d.pdf'']"
    by (simp_all add: sample_failing_page_env_def)
  show ?thesis
    using extractor_reads_every_pdf
      [OF e f [symmetric] _ t [symmetric]] r
    by (simp add: show_nat.simps digit_char_def nl_def)
qed

section \<open>Properties of the ingestion pipeline\<close>

text \<open>
  C7. When loading the knowledge base file raises, the run of \<open>main\<close> is the start line,
  the load, and the line "Error loading knowledge base file" with the text of the
  exception; it contains no split, no embedding, no directory creation and no write;
  the persisted store is what it was; and \<open>main\<close> returns.
\<close>

theorem failed_load_aborts_ingestion:
  "ie_load env KNOWLEDGE_BASE_FILE ''utf-8'' = Inl e \<Longrightarrow>
     ir_trace (ingest_data_main env store)
       = [Print ''--- Starting Data Ingestion Process ---'',
          Call_load KNOWLEDGE_BASE_FILE ''utf-8'',
          Print (''Error loading knowledge base file: '' @ exc_text e)]
     \<and> \<not> list_ex is_ingest_work (ir_trace (ingest_data_main env store))
     \<and> ir_store (ingest_data_main env store) = store
     \<and> ir_ending (ingest_data_main env store) = Returned"
  by (simp add: ingest_data_main_def)

theorem failed_load_aborts_ingestion_witness:
  "ir_trace (ingest_data_main sample_ingest_env 7)
     = [Print ''--- Starting Data Ingestion Process ---'',
        Call_load ''knowledge_base.txt'' ''utf-8'',
        Print ''Error loading knowledge base file: Error loading knowledge_base.txt'']
   \<and> ir_store (ingest_data_main sample_ingest_env 7) = 7
   \<and> ir_ending (ingest_data_main sample_ingest_env 7) = Returned"
  using failed_load_aborts_ingestion
    [of sample_ingest_env "PyException ''RuntimeError'' ''Error loading knowledge_base.txt''" 7]
  by (simp add: sample_ingest_env_def KNOWLEDGE_BASE_FILE_def)

end
